theory Spec2Isabelle
  imports Main "HOL-Library.Sublist"
begin

section \<open>ClinicalTrials.gov tool: a shallow embedding of clinicaltrails.py\<close>

text \<open>
  Python \<open>str\<close> values are modelled as \<open>string\<close>, Python \<open>int\<close> as \<open>int\<close>,
  \<open>None\<close>-able arguments as \<open>option\<close>. Exceptions are values of the type \<open>exn\<close>
  and a computation that may raise returns \<open>exn + 'a\<close>, \<open>Inl\<close> being the raise.
\<close>

subsection \<open>Strings and numbers as Python formats them\<close>

definition newline :: char where
  "newline = CHR 0x0A"

definition quote :: char where
  "quote = CHR 0x27"

definition digit_char :: "nat \<Rightarrow> char" where
  "digit_char d = ''0123456789'' ! d"

text \<open>\<open>str(n)\<close> of a non-negative \<open>int\<close>: its decimal digits, most significant first.\<close>

function str_nat :: "nat \<Rightarrow> string" where
  "str_nat n = (if n < 10 then [digit_char n] else str_nat (n div 10) @ [digit_char (n mod 10)])"
  by pat_completeness auto
termination
  by (relation "measure id") auto

declare str_nat.simps [simp del]

text \<open>\<open>str(i)\<close>, the text an f-string puts for \<open>{i}\<close>: a minus sign before a negative number.\<close>

definition str_int :: "int \<Rightarrow> string" where
  "str_int i = (if i < 0 then CHR ''-'' # str_nat (nat (- i)) else str_nat (nat i))"

text \<open>\<open>sep.join(xs)\<close>.\<close>

fun join :: "string \<Rightarrow> string list \<Rightarrow> string" where
  "join sep [] = []"
| "join sep [x] = x"
| "join sep (x # y # ys) = x @ sep @ join sep (y # ys)"

subsection \<open>Exceptions\<close>

text \<open>
  The exceptions the program can meet, each carrying the text \<open>str(e)\<close>.
  \<open>KeyboardInterrupt\<close> and \<open>SystemExit\<close> derive from \<open>BaseException\<close> only; all
  the others are instances of \<open>Exception\<close>, and \<open>Exception\<close> itself stands for an
  instance of that class or of a subclass of it not listed.
\<close>

datatype exn =
    HTTPError string
  | ConnectionError string
  | Timeout string
  | UnicodeDecodeError string
  | CsvError string
  | ValueError string
  | KeyError string
  | IndexError string
  | AttributeError string
  | Exception string
  | KeyboardInterrupt string
  | SystemExit string

fun str_exn :: "exn \<Rightarrow> string" where
  "str_exn (HTTPError s) = s"
| "str_exn (ConnectionError s) = s"
| "str_exn (Timeout s) = s"
| "str_exn (UnicodeDecodeError s) = s"
| "str_exn (CsvError s) = s"
| "str_exn (ValueError s) = s"
| "str_exn (KeyError s) = s"
| "str_exn (IndexError s) = s"
| "str_exn (AttributeError s) = s"
| "str_exn (Exception s) = s"
| "str_exn (KeyboardInterrupt s) = s"
| "str_exn (SystemExit s) = s"

text \<open>\<open>isinstance(e, Exception)\<close>: what a clause \<open>except Exception\<close> catches.\<close>

fun is_Exception :: "exn \<Rightarrow> bool" where
  "is_Exception (KeyboardInterrupt s) = False"
| "is_Exception (SystemExit s) = False"
| "is_Exception e = True"

subsection \<open>The table of records (pandas DataFrame)\<close>

text \<open>
  A DataFrame as the program builds it: the column labels and the rows in their order,
  every cell a \<open>str\<close> or \<open>None\<close> (a row shorter than the widest one is filled up
  with \<open>None\<close>). The row index is the default one, \<open>0, 1, 2, ...\<close>.
\<close>

record dataframe =
  columns :: "string list"
  rows :: "string option list list"

text \<open>\<open>df.empty\<close>: an axis of length zero. \<open>len(df)\<close>: the number of rows.\<close>

definition empty :: "dataframe \<Rightarrow> bool" where
  "empty df = (rows df = [] \<or> columns df = [])"

definition len :: "dataframe \<Rightarrow> int" where
  "len df = int (length (rows df))"

text \<open>
  \<open>df.head(n)\<close>: the first \<open>n\<close> rows; for a negative \<open>n\<close>, all rows but the last
  \<open>-n\<close>.
\<close>

definition head :: "dataframe \<Rightarrow> int \<Rightarrow> dataframe" where
  "head df n =
     (if 0 \<le> n then df\<lparr>rows := take (nat n) (rows df)\<rparr>
      else df\<lparr>rows := take (length (rows df) - nat (- n)) (rows df)\<rparr>)"

subsection \<open>Helper functions\<close>

text \<open>
  \<open>format_limited_output(df, max_rows=None)\<close>. The rendering \<open>DataFrame.to_string\<close>
  belongs to pandas and is a parameter. \<open>max_rows and max_rows < total_rows\<close> is
  Python's truth test: \<open>None\<close> and \<open>0\<close> are false.
\<close>

definition truthy :: "int option \<Rightarrow> bool" where
  "truthy max_rows = (case max_rows of None \<Rightarrow> False | Some m \<Rightarrow> m \<noteq> 0)"

definition metadata :: "int \<Rightarrow> int \<Rightarrow> string" where
  "metadata total_rows rows_shown =
     [newline, newline] @ ''Data summary: Total '' @ str_int total_rows
       @ '' records, showing '' @ str_int rows_shown @ '' records.''"

definition format_limited_output ::
  "(dataframe \<Rightarrow> string) \<Rightarrow> dataframe option \<Rightarrow> int option \<Rightarrow> string" where
  "format_limited_output to_string df max_rows =
     (case df of
        None \<Rightarrow> ''No data available''
      | Some d \<Rightarrow>
          if empty d then ''No data available''
          else
            let total_rows = len d in
            if truthy max_rows \<and> the max_rows < total_rows
            then to_string (head d (the max_rows)) @ metadata total_rows (the max_rows)
            else to_string d @ metadata total_rows total_rows)"


subsection \<open>Building and reading the table\<close>

text \<open>
  \<open>pd.DataFrame.from_records(data, columns=cols)\<close> on a non-empty list of lists of
  \<open>str\<close>: pandas pads every row with \<open>None\<close> to the widest one and raises
  \<open>ValueError\<close> when that width is not the number of column labels. A table without
  columns has no rows.
\<close>

definition from_records :: "string list list \<Rightarrow> string list \<Rightarrow> exn + dataframe" where
  "from_records data cols =
     (let k = foldr max (map length data) 0 in
      if k \<noteq> length cols
      then Inl (ValueError (str_nat (length cols) @ '' columns passed, passed data had ''
                            @ str_nat k @ '' columns''))
      else Inr \<lparr>columns = cols,
                rows = (if cols = [] then []
                        else map (\<lambda>r. map Some r @ replicate (k - length r) None) data)\<rparr>)"

definition column_positions :: "dataframe \<Rightarrow> string \<Rightarrow> nat list" where
  "column_positions df label = filter (\<lambda>i. columns df ! i = label) [0..<length (columns df)]"

text \<open>
  \<open>(df["NCT Number"] == nct_ID).any()\<close> under \<open>not\<close>: \<open>KeyError\<close> when no column has
  the label; with the label on several columns the selection is a DataFrame, \<open>any()\<close>
  a Series, and its truth value raises \<open>ValueError\<close>.
\<close>

definition nct_number_any :: "dataframe \<Rightarrow> string \<Rightarrow> exn + bool" where
  "nct_number_any df nct_ID =
     (case column_positions df ''NCT Number'' of
        [] \<Rightarrow> Inl (KeyError ([quote] @ ''NCT Number'' @ [quote]))
      | [i] \<Rightarrow> Inr (list_ex (\<lambda>r. r ! i = Some nct_ID) (rows df))
      | _ \<Rightarrow> Inl (ValueError ''The truth value of a Series is ambiguous. Use a.empty, a.bool(), a.item(), a.any() or a.all().''))"

text \<open>\<open>df[df["NCT Number"] == nct_ID].iloc[0]\<close>: the first row whose cell is the identifier.\<close>

definition nct_number_first :: "dataframe \<Rightarrow> string \<Rightarrow> exn + string option list" where
  "nct_number_first df nct_ID =
     (case column_positions df ''NCT Number'' of
        [] \<Rightarrow> Inl (KeyError ([quote] @ ''NCT Number'' @ [quote]))
      | [i] \<Rightarrow>
          (case find (\<lambda>r. r ! i = Some nct_ID) (rows df) of
             None \<Rightarrow> Inl (IndexError ''single positional indexer is out-of-bounds'')
           | Some r \<Rightarrow> Inr r)
      | _ \<Rightarrow> Inl (ValueError ''The truth value of a Series is ambiguous. Use a.empty, a.bool(), a.item(), a.any() or a.all().''))"

text \<open>
  A value read from a row: a \<open>str\<close>, \<open>None\<close>, or (a label carried by several
  columns) a Series of the cells under that label.
\<close>

datatype pyval = Str string | PyNone | Series "string option list"

text \<open>\<open>study_row.get(key, fallback)\<close> on a row whose index is the column labels.\<close>

definition series_get :: "string list \<Rightarrow> string option list \<Rightarrow> string \<Rightarrow> string \<Rightarrow> pyval" where
  "series_get labels cells key fallback =
     (case filter (\<lambda>(l, v). l = key) (zip labels cells) of
        [] \<Rightarrow> Str fallback
      | [(l, v)] \<Rightarrow> (case v of None \<Rightarrow> PyNone | Some s \<Rightarrow> Str s)
      | kvs \<Rightarrow> Series (map snd kvs))"

subsection \<open>The libraries and the network\<close>

text \<open>
  What \<open>requests.get(url, verify=False)\<close> followed by \<open>raise_for_status()\<close> does,
  by the \<open>except\<close> clause of \<open>request_ct\<close> that it reaches. A
  \<open>KeyboardInterrupt\<close> or a \<open>SystemExit\<close> (with its text) reaches none of them.
\<close>

datatype get_outcome =
    Response string
  | Raises_HTTPError int string
  | Raises_ConnectionError
  | Raises_Timeout
  | Raises_Exception string
  | Raises_KeyboardInterrupt
  | Raises_SystemExit string

text \<open>
  The library functions the program calls and does not define: the registry's answer to
  a GET, \<open>bytes.decode("utf-8")\<close>, \<open>str.splitlines\<close>, \<open>list(csv.reader(lines))\<close>,
  \<open>DataFrame.to_string\<close> and the text of a Series in an f-string.
\<close>

record env =
  requests_get :: "string \<Rightarrow> get_outcome"
  decode_utf8 :: "string \<Rightarrow> exn + string"
  splitlines :: "string \<Rightarrow> string list"
  csv_reader :: "string list \<Rightarrow> exn + string list list"
  to_string :: "dataframe \<Rightarrow> string"
  series_str :: "string option list \<Rightarrow> string"

text \<open>
  The state the program has between calls: the module's list of valid column names,
  and the URLs handed to \<open>requests.get\<close> so far, in order.
\<close>

record world =
  valid_csv_column_names :: "string list"
  sent :: "string list"

text \<open>The text an f-string puts for a value read from a row.\<close>

definition fmt :: "env \<Rightarrow> pyval \<Rightarrow> string" where
  "fmt env v = (case v of Str s \<Rightarrow> s | PyNone \<Rightarrow> ''None'' | Series cells \<Rightarrow> series_str env cells)"

subsection \<open>Utils functions\<close>

text \<open>
  \<open>request_ct(url)\<close>: one GET; the timing and the log line leave no trace in the
  result. The last clause is \<open>except Exception\<close>: an exception of another kind passes
  through as it is.
\<close>

definition request_ct :: "env \<Rightarrow> string \<Rightarrow> world \<Rightarrow> (exn + string) \<times> world" where
  "request_ct env url w =
     (let w' = w\<lparr>sent := sent w @ [url]\<rparr> in
      case requests_get env url of
        Response content \<Rightarrow> (Inr content, w')
      | Raises_HTTPError status_code reason \<Rightarrow>
          (Inl (HTTPError (''HTTP Error '' @ str_int status_code @ '' for '' @ url @ '': '' @ reason)), w')
      | Raises_ConnectionError \<Rightarrow>
          (Inl (ConnectionError (''Couldn'' @ [quote] @ ''t connect to '' @ url
                 @ ''. Check your internet connection or try again later.'')), w')
      | Raises_Timeout \<Rightarrow>
          (Inl (Timeout (''Request to '' @ url @ '' timed out.'')), w')
      | Raises_Exception text \<Rightarrow>
          (Inl (Exception (''An unexpected error occurred during request to '' @ url @ '': '' @ text)), w')
      | Raises_KeyboardInterrupt \<Rightarrow> (Inl (KeyboardInterrupt []), w')
      | Raises_SystemExit text \<Rightarrow> (Inl (SystemExit text), w'))"

text \<open>
  \<open>csv_handler(url)\<close>: the request, the decoding, the lines, the records.
  (\<open>json_handler\<close> is called by neither tool.)
\<close>

definition csv_handler :: "env \<Rightarrow> string \<Rightarrow> world \<Rightarrow> (exn + string list list) \<times> world" where
  "csv_handler env url w =
     (case request_ct env url w of
        (Inl e, w') \<Rightarrow> (Inl e, w')
      | (Inr content, w') \<Rightarrow>
          (case decode_utf8 env content of
             Inl e \<Rightarrow> (Inl e, w')
           | Inr decoded_content \<Rightarrow> (csv_reader env (splitlines env decoded_content), w')))"


subsection \<open>The embedded study fields and the module's load\<close>

text \<open>
  \<open>_STUDY_FIELDS_CSV_CONTENT\<close>, character for character: the literal starts with
  its first line, and every line of it, the last one too, ends with a newline.
\<close>

definition STUDY_FIELDS_CSV_LINES :: "string list" where
  "STUDY_FIELDS_CSV_LINES =
     [''Column Name,Included Data Fields'',
      ''NCT Number,NCTId'',
      ''Study Title,BriefTitle'',
      ''Study URL,NCTId'',
      ''Acronym,Acronym'',
      ''Study Status,OverallStatus'',
      ''Brief Summary,BriefSummary'',
      ''Study Results,HasResults'',
      ''Conditions,Condition'',
      ''Interventions,InterventionType|InterventionName'',
      ''Primary Outcome Measures,PrimaryOutcomeMeasure|PrimaryOutcomeDescription|PrimaryOutcomeTimeFrame'',
      ''Secondary Outcome Measures,SecondaryOutcomeMeasure|SecondaryOutcomeDescription|SecondaryOutcomeTimeFrame'',
      ''Other Outcome Measures,OtherOutcomeMeasure|OtherOutcomeDescription|OtherOutcomeTimeFrame'',
      ''Sponsor,LeadSponsorName'',
      ''Collaborators,CollaboratorName'',
      ''Sex,Sex'',
      ''Age,MinimumAge|MaximumAge|StdAge'',
      ''Phases,Phase'',
      ''Enrollment,EnrollmentCount'',
      ''Funder Type,LeadSponsorClass'',
      ''Study Type,StudyType'',
      ''Study Design,DesignAllocation|DesignInterventionModel|DesignMasking|DesignWhoMasked|DesignPrimaryPurpose'',
      ''Other IDs,OrgStudyId|SecondaryId'',
      ''Start Date,StartDate'',
      ''Primary Completion Date,PrimaryCompletionDate'',
      ''Completion Date,CompletionDate'',
      ''First Posted,StudyFirstPostDate'',
      ''Results First Posted,ResultsFirstSubmitDate'',
      ''Last Update Posted,LastUpdatePostDate'',
      ''Locations,LocationFacility|LocationCity|LocationState|LocationZip|LocationCountry'',
      ''Study Documents,NCTId|LargeDocLabel|LargeDocFilename'']"

definition STUDY_FIELDS_CSV_CONTENT :: string where
  "STUDY_FIELDS_CSV_CONTENT = concat (map (\<lambda>line. line @ [newline]) STUDY_FIELDS_CSV_LINES)"

text \<open>
  The lines \<open>io.StringIO(text)\<close> hands to the reader, without their terminators.
\<close>

fun readlines :: "string \<Rightarrow> string list" where
  "readlines [] = []"
| "readlines (c # cs) =
     (if c = newline then [] # readlines cs
      else (case readlines cs of [] \<Rightarrow> [[c]] | l # ls \<Rightarrow> (c # l) # ls))"

text \<open>
  One record of \<open>csv.reader\<close> (delimiter \<open>,\<close>) from a line that holds no quote
  character and no carriage return, as all lines of the embedded table are: the fields
  between the commas, and no field at all for an empty line.
\<close>

fun split_fields :: "string \<Rightarrow> string list" where
  "split_fields [] = [[]]"
| "split_fields (c # cs) =
     (if c = CHR '','' then [] # split_fields cs
      else (case split_fields cs of [] \<Rightarrow> [[c]] | f # fs \<Rightarrow> (c # f) # fs))"

definition csv_record :: "string \<Rightarrow> string list" where
  "csv_record line = (if line = [] then [] else split_fields line)"

text \<open>
  \<open>csv.DictReader\<close>: the first record names the fields; every later record that is
  not empty becomes a dict from field name to value, \<open>None\<close> for a field the record
  is too short for (a later duplicate of a name wins, as in \<open>dict(zip(...))\<close>).
\<close>

definition dict_reader :: "string list list \<Rightarrow> (string \<rightharpoonup> string option) list" where
  "dict_reader records =
     (case records of
        [] \<Rightarrow> []
      | fieldnames # later \<Rightarrow>
          map (\<lambda>r. map_of (rev (zip fieldnames
                      (map Some r @ replicate (length fieldnames - length r) None))))
            (filter (\<lambda>r. r \<noteq> []) later))"

text \<open>\<open>s.strip()\<close>: without the white space at both ends.\<close>

definition is_space :: "char \<Rightarrow> bool" where
  "is_space c = (c \<in> set [CHR '' '', CHR 0x09, CHR 0x0A, CHR 0x0B, CHR 0x0C, CHR 0x0D,
                           CHR 0x1C, CHR 0x1D, CHR 0x1E, CHR 0x1F])"

definition strip :: "string \<Rightarrow> string" where
  "strip s = rev (dropWhile is_space (rev (dropWhile is_space s)))"

text \<open>
  The loop at module level: \<open>for row in reader: _valid_csv_column_names.append(
  row["Column Name"].strip())\<close>, the list so far as accumulator.
\<close>

fun load_loop :: "(string \<rightharpoonup> string option) list \<Rightarrow> string list \<Rightarrow> exn + string list" where
  "load_loop [] acc = Inr acc"
| "load_loop (row # later) acc =
     (case row ''Column Name'' of
        None \<Rightarrow> Inl (KeyError ([quote] @ ''Column Name'' @ [quote]))
      | Some None \<Rightarrow>
          Inl (AttributeError ([quote] @ ''NoneType'' @ [quote] @ '' object has no attribute ''
                               @ [quote] @ ''strip'' @ [quote]))
      | Some (Some csv_column) \<Rightarrow> load_loop later (acc @ [strip csv_column]))"

text \<open>The state after the module has been loaded, if loading does not raise.\<close>

definition module_load :: "exn + world" where
  "module_load =
     (case load_loop (dict_reader (map csv_record (readlines STUDY_FIELDS_CSV_CONTENT))) [] of
        Inl e \<Rightarrow> Inl e
      | Inr names \<Rightarrow> Inr \<lparr>valid_csv_column_names = names, sent = []\<rparr>)"

subsection \<open>API constants\<close>

definition BASE_URL :: string where
  "BASE_URL = ''https://clinicaltrials.gov/api/v2/''"

definition JSON :: string where
  "JSON = ''format=json''"

definition CSV :: string where
  "CSV = ''format=csv''"


subsection \<open>The two tools\<close>

text \<open>
  The \<open>return\<close> statement a call leaves through, and what the body of the \<open>try\<close>
  holds there: the text returned and the local \<open>citation_list\<close>.
\<close>

datatype exit =
    Reject_Bound
  | Reject_Fields
  | Not_Found_Row
  | Not_Found_Structure
  | No_Studies
  | No_Studies_Structure
  | Formatted

record frame =
  left_at :: exit
  results_str :: string
  citation_list :: "string list"

text \<open>\<open>search_clinical_trials_by_NCT\<close>: the URL, then the body of its \<open>try\<close>.\<close>

definition nct_url :: "string \<Rightarrow> string" where
  "nct_url nct_ID =
     BASE_URL @ ''studies?'' @ CSV @ ''&markupFormat=markdown&query.term='' @ nct_ID
       @ ''&pageSize='' @ str_int 1"

definition nct_not_found :: "string \<Rightarrow> string" where
  "nct_not_found nct_ID =
     ''Study with NCT ID '' @ nct_ID @ '' not found in ClinicalTrials.gov API response.''"

definition nct_citation :: "env \<Rightarrow> string \<Rightarrow> string list \<Rightarrow> string option list \<Rightarrow> string" where
  "nct_citation env nct_ID labels study_row =
     (let summary_text = series_get labels study_row ''Brief Summary'' ''No summary available'';
          title_text = series_get labels study_row ''Study Title'' ''No Title Available'';
          study_url = series_get labels study_row ''Study URL''
                        (''https://clinicaltrials.gov/study/'' @ nct_ID)
      in fmt env title_text @ '': '' @ fmt env study_url)"

definition nct_try :: "env \<Rightarrow> string \<Rightarrow> world \<Rightarrow> (exn + frame) \<times> world" where
  "nct_try env nct_ID w =
     (case csv_handler env (nct_url nct_ID) w of
        (Inl e, w') \<Rightarrow> (Inl e, w')
      | (Inr study_data_from_api, w') \<Rightarrow>
          if length study_data_from_api > 1 then
            (case from_records (tl study_data_from_api) (hd study_data_from_api) of
               Inl e \<Rightarrow> (Inl e, w')
             | Inr df \<Rightarrow>
                 if empty df then
                   (Inr \<lparr>left_at = Not_Found_Row, results_str = nct_not_found nct_ID,
                         citation_list = []\<rparr>, w')
                 else
                   (case nct_number_any df nct_ID of
                      Inl e \<Rightarrow> (Inl e, w')
                    | Inr False \<Rightarrow>
                        (Inr \<lparr>left_at = Not_Found_Row, results_str = nct_not_found nct_ID,
                              citation_list = []\<rparr>, w')
                    | Inr True \<Rightarrow>
                        (case nct_number_first df nct_ID of
                           Inl e \<Rightarrow> (Inl e, w')
                         | Inr study_row \<Rightarrow>
                             (Inr \<lparr>left_at = Formatted,
                                   results_str = format_limited_output (to_string env) (Some df) None,
                                   citation_list = [nct_citation env nct_ID (columns df) study_row]\<rparr>,
                              w'))))
          else
            (Inr \<lparr>left_at = Not_Found_Structure,
                  results_str = ''Study with NCT ID '' @ nct_ID @ '' not found in API response structure.'',
                  citation_list = []\<rparr>, w'))"

text \<open>
  The tool itself: \<open>except Exception as e\<close> turns a raise of the body into the
  returned text when the exception is an instance of \<open>Exception\<close>; any other
  exception leaves the tool. The result is \<open>Inr\<close> of the returned \<open>str\<close>, or
  \<open>Inl\<close> of the exception that leaves the tool.
\<close>

definition search_clinical_trials_by_NCT ::
  "env \<Rightarrow> string \<Rightarrow> world \<Rightarrow> (exn + string) \<times> world" where
  "search_clinical_trials_by_NCT env nct_ID w =
     (case nct_try env nct_ID w of
        (Inr fr, w') \<Rightarrow> (Inr (results_str fr), w')
      | (Inl e, w') \<Rightarrow>
          if is_Exception e then
            (Inr (''Error fetching study details for NCT ID '' @ nct_ID @ '': '' @ str_exn e), w')
          else (Inl e, w'))"

text \<open>\<open>search_clinical_trials_by_keyword\<close>.\<close>

definition requested_csv_fields :: "string list" where
  "requested_csv_fields =
     [''NCT Number'', ''Conditions'', ''Study Title'', ''Brief Summary'', ''Study URL'',
      ''Study Status'', ''Phases'', ''Start Date'', ''Sponsor'', ''Enrollment'', ''Study Type'']"

definition concat_api_fields :: string where
  "concat_api_fields = join ''|'' requested_csv_fields"

definition keyword_url :: "string \<Rightarrow> int \<Rightarrow> string" where
  "keyword_url keyword max_studies =
     BASE_URL @ ''studies?'' @ CSV @ ''&query.term='' @ keyword @ ''&markupFormat=markdown&fields=''
       @ concat_api_fields @ ''&pageSize='' @ str_int max_studies"

definition bound_error :: "int \<Rightarrow> string" where
  "bound_error max_studies =
     ''Error: The number of studies can only be between 1 and 1000. (Requested: ''
       @ str_int max_studies @ '')''"

definition fields_error :: "string list \<Rightarrow> string" where
  "fields_error valid =
     (let invalid_fields = filter (\<lambda>f. f \<notin> set valid) requested_csv_fields in
      ''Error: One or more requested fields are not valid! Invalid fields: ''
        @ join '', '' invalid_fields @ ''. Valid fields are: '' @ join '', '' valid)"

definition keyword_citation :: "env \<Rightarrow> string list \<Rightarrow> string option list \<Rightarrow> string" where
  "keyword_citation env labels study_row =
     (let nct_number = series_get labels study_row ''NCT Number'' ''NCT Number Missing'';
          title_text = series_get labels study_row ''Study Title'' ''No Title Available'';
          summary_text = series_get labels study_row ''Brief Summary'' ''No Summary Available'';
          study_url = series_get labels study_row ''Study URL''
                        (''https://clinicaltrials.gov/study/'' @ fmt env nct_number)
      in fmt env title_text @ '': '' @ fmt env study_url)"

definition keyword_try :: "env \<Rightarrow> string \<Rightarrow> int \<Rightarrow> world \<Rightarrow> (exn + frame) \<times> world" where
  "keyword_try env keyword max_studies w =
     (if max_studies > 1000 \<or> max_studies < 1 then
        (Inr \<lparr>left_at = Reject_Bound, results_str = bound_error max_studies,
              citation_list = []\<rparr>, w)
      else if \<not> set requested_csv_fields \<subseteq> set (valid_csv_column_names w) then
        (Inr \<lparr>left_at = Reject_Fields, results_str = fields_error (valid_csv_column_names w),
              citation_list = []\<rparr>, w)
      else
        (case csv_handler env (keyword_url keyword max_studies) w of
           (Inl e, w') \<Rightarrow> (Inl e, w')
         | (Inr results_from_api, w') \<Rightarrow>
             if length results_from_api > 1 then
               (case from_records (tl results_from_api) (hd results_from_api) of
                  Inl e \<Rightarrow> (Inl e, w')
                | Inr df \<Rightarrow>
                    if empty df then
                      (Inr \<lparr>left_at = No_Studies,
                            results_str = ''No studies found for keyword: '' @ keyword @ ''.'',
                            citation_list = []\<rparr>, w')
                    else
                      (Inr \<lparr>left_at = Formatted,
                            results_str = format_limited_output (to_string env) (Some df) None,
                            citation_list = map (keyword_citation env (columns df)) (rows df)\<rparr>,
                       w'))
             else
               (Inr \<lparr>left_at = No_Studies_Structure,
                     results_str = ''No studies found for keyword: '' @ keyword
                       @ ''. The API returned no data or an unexpected structure.'',
                     citation_list = []\<rparr>, w')))"

definition search_clinical_trials_by_keyword ::
  "env \<Rightarrow> string \<Rightarrow> int \<Rightarrow> world \<Rightarrow> (exn + string) \<times> world" where
  "search_clinical_trials_by_keyword env keyword max_studies w =
     (case keyword_try env keyword max_studies w of
        (Inr fr, w') \<Rightarrow> (Inr (results_str fr), w')
      | (Inl e, w') \<Rightarrow>
          if is_Exception e then
            (Inr (''Error searching studies by keyword '' @ [quote] @ keyword @ [quote] @ '': ''
                  @ str_exn e), w')
          else (Inl e, w'))"

text \<open>
  The states the program can be in: the one after the load, and the one after any call
  of a tool from such a state, whatever the libraries and the network do in that call.
\<close>

inductive reachable :: "world \<Rightarrow> bool" where
  loaded: "module_load = Inr w \<Longrightarrow> reachable w"
| by_NCT: "reachable w \<Longrightarrow> reachable (snd (search_clinical_trials_by_NCT env nct_ID w))"
| by_keyword:
    "reachable w \<Longrightarrow> reachable (snd (search_clinical_trials_by_keyword env keyword max_studies w))"


subsection \<open>The fields parameter in the specification's words\<close>

text \<open>
  The specification words the \<open>fields\<close> parameter of the keyword search as the
  registry's field identifiers that belong to the requested display names. The embedded
  table lists them in its column \<open>Included Data Fields\<close>, which the program never
  reads. \<open>spec_concat_api_fields\<close> is the parameter in those words, to be compared
  with the program's \<open>concat_api_fields\<close>.
\<close>

definition included_data_fields :: "string \<Rightarrow> string" where
  "included_data_fields name =
     (case find (\<lambda>row. row ''Column Name'' = Some (Some name))
             (dict_reader (map csv_record (readlines STUDY_FIELDS_CSV_CONTENT))) of
        None \<Rightarrow> []
      | Some row \<Rightarrow> (case row ''Included Data Fields'' of Some (Some ids) \<Rightarrow> ids | _ \<Rightarrow> []))"

definition spec_concat_api_fields :: string where
  "spec_concat_api_fields = join ''|'' (map included_data_fields requested_csv_fields)"

subsection \<open>Concrete libraries and answers\<close>

text \<open>
  One concrete choice of the library functions, to run the tools on examples: text is
  decoded as it is, lines and records are read as for the embedded table, a table is
  rendered row by row with its labels first, cells separated by a blank. The registry
  answers every GET with the given outcome.
\<close>

definition cell_text :: "string option \<Rightarrow> string" where
  "cell_text c = (case c of None \<Rightarrow> ''None'' | Some s \<Rightarrow> s)"

definition plain_to_string :: "dataframe \<Rightarrow> string" where
  "plain_to_string df = join [newline] (map (join '' '') (columns df # map (map cell_text) (rows df)))"

definition plain_env :: "get_outcome \<Rightarrow> env" where
  "plain_env answer =
     \<lparr>requests_get = (\<lambda>url. answer),
      decode_utf8 = Inr,
      splitlines = readlines,
      csv_reader = (\<lambda>ls. Inr (map csv_record ls)),
      to_string = plain_to_string,
      series_str = (\<lambda>cells. join '', '' (map cell_text cells))\<rparr>"

definition one_study :: string where
  "one_study =
     ''NCT Number,Study Title'' @ [newline] @
     ''NCT00000001,Aspirin in Pain'' @ [newline]"

definition two_studies :: string where
  "two_studies =
     ''NCT Number,Study Title'' @ [newline] @
     ''NCT00000001,Aspirin in Pain'' @ [newline] @
     ''NCT00000002,Placebo in Pain'' @ [newline]"

definition wide_study :: string where
  "wide_study =
     ''NCT Number,Study Title'' @ [newline] @
     ''NCT00000001,Aspirin in Pain,extra'' @ [newline]"

definition fresh :: world where
  "fresh = \<lparr>valid_csv_column_names =
     [''NCT Number'', ''Study Title'', ''Study URL'', ''Acronym'', ''Study Status'',
      ''Brief Summary'', ''Study Results'', ''Conditions'', ''Interventions'',
      ''Primary Outcome Measures'', ''Secondary Outcome Measures'', ''Other Outcome Measures'',
      ''Sponsor'', ''Collaborators'', ''Sex'', ''Age'', ''Phases'', ''Enrollment'', ''Funder Type'',
      ''Study Type'', ''Study Design'', ''Other IDs'', ''Start Date'', ''Primary Completion Date'',
      ''Completion Date'', ''First Posted'', ''Results First Posted'', ''Last Update Posted'',
      ''Locations'', ''Study Documents''], sent = []\<rparr>"

text \<open>A table of \<open>n\<close> records with one column, the record \<open>i\<close> holding \<open>str(i)\<close>.\<close>

definition numbered :: "nat \<Rightarrow> dataframe" where
  "numbered n = \<lparr>columns = [''NCT Number''], rows = map (\<lambda>i. [Some (str_nat i)]) [0..<n]\<rparr>"

section \<open>Properties\<close>

subsection \<open>Evaluating the formats\<close>

lemma str_nat_digit: "n < 10 \<Longrightarrow> str_nat n = [digit_char n]"
  by (simp add: str_nat.simps)

lemma str_nat_more: "10 \<le> n \<Longrightarrow> str_nat n = str_nat (n div 10) @ [digit_char (n mod 10)]"
  by (subst str_nat.simps) simp

lemma str_int_nat: "str_int (int n) = str_nat n"
  by (simp add: str_int_def)

lemma numbered_shape:
  "columns (numbered n) = [''NCT Number'']" "length (rows (numbered n)) = n"
  "empty (numbered n) = (n = 0)" "len (numbered n) = int n"
  by (simp_all add: numbered_def empty_def len_def)

lemma numbered_take: "m \<le> n \<Longrightarrow> (numbered n)\<lparr>rows := take m (rows (numbered n))\<rparr> = numbered m"
  by (simp add: numbered_def take_map)

subsection \<open>The formatter\<close>

text \<open>
  C3, as amended. For a table that is not empty, of \<open>T\<close> rows, and every \<open>max_rows\<close>
  with \<open>1 \<le> max_rows < T\<close>, \<open>format_limited_output\<close> returns the rendering of the
  table cut to its first \<open>max_rows\<close> rows, in their order, followed by two newlines and
  \<open>Data summary: Total T records, showing max_rows records.\<close>
\<close>

theorem format_limited_output_truncates:
  assumes "\<not> empty df" and "1 \<le> max_rows" and "max_rows < len df"
  shows "format_limited_output ts (Some df) (Some max_rows) =
           ts (df\<lparr>rows := take (nat max_rows) (rows df)\<rparr>)
             @ [newline, newline] @ ''Data summary: Total '' @ str_int (len df)
             @ '' records, showing '' @ str_int max_rows @ '' records.''"
  using assms by (simp add: format_limited_output_def truthy_def head_def metadata_def Let_def)

text \<open>
  The example of the specification: 50 records with \<open>max_rows = 10\<close> give the first ten
  records and the summary \<open>Data summary: Total 50 records, showing 10 records.\<close>
\<close>

theorem format_limited_output_truncates_witness:
  "\<not> empty (numbered 50) \<and> (1::int) \<le> 10 \<and> 10 < len (numbered 50) \<and>
   format_limited_output plain_to_string (Some (numbered 50)) (Some 10) =
     plain_to_string (numbered 10)
       @ [newline, newline] @ ''Data summary: Total 50 records, showing 10 records.''"
proof -
  have pre: "\<not> empty (numbered 50)" "(1::int) \<le> 10" "10 < len (numbered 50)"
    by (simp_all add: numbered_shape)
  have cut: "(numbered 50)\<lparr>rows := take 10 (rows (numbered 50))\<rparr> = numbered 10"
    by (rule numbered_take) simp
  have fifty: "str_int (len (numbered 50)) = ''50''" and ten: "str_int 10 = ''10''"
    by (simp_all add: numbered_shape str_int_def str_nat_more str_nat_digit digit_char_def)
  show ?thesis
    using pre format_limited_output_truncates [OF pre, of plain_to_string]
    by (simp add: cut fifty ten)
qed

text \<open>
  C3 as the specification states it fails at \<open>max_rows = 0\<close>, which is below the total
  of a table of two records: the two records are rendered and counted, not none.
\<close>

theorem format_limited_output_zero_counterexample:
  "\<not> empty (numbered 2) \<and> 0 < len (numbered 2) \<and>
   format_limited_output plain_to_string (Some (numbered 2)) (Some 0) \<noteq>
     plain_to_string ((numbered 2)\<lparr>rows := take (nat 0) (rows (numbered 2))\<rparr>)
       @ [newline, newline] @ ''Data summary: Total '' @ str_int (len (numbered 2))
       @ '' records, showing '' @ str_int 0 @ '' records.''"
  by code_simp

text \<open>
  C4. For a table of \<open>N\<close> records, \<open>format_limited_output\<close> with \<open>max_rows = N\<close> and
  with \<open>max_rows\<close> unset return the same text.
\<close>

theorem format_limited_output_total_is_unset:
  "format_limited_output ts (Some df) (Some (len df)) = format_limited_output ts (Some df) None"
  by (simp add: format_limited_output_def truthy_def Let_def)

theorem format_limited_output_total_is_unset_witness:
  "format_limited_output plain_to_string (Some (numbered 3)) (Some 3) =
   format_limited_output plain_to_string (Some (numbered 3)) None"
  using format_limited_output_total_is_unset [of plain_to_string "numbered 3"]
  by (simp add: numbered_shape)

text \<open>
  C10. For a table that is not empty, \<open>format_limited_output\<close> with \<open>max_rows = 0\<close>
  renders all records and counts them all as shown, as with \<open>max_rows\<close> unset.
\<close>

theorem format_limited_output_zero_is_unset:
  assumes "\<not> empty df"
  shows "format_limited_output ts (Some df) (Some 0) =
           ts df @ [newline, newline] @ ''Data summary: Total '' @ str_int (len df)
             @ '' records, showing '' @ str_int (len df) @ '' records.'' \<and>
         format_limited_output ts (Some df) (Some 0) = format_limited_output ts (Some df) None"
  using assms by (simp add: format_limited_output_def truthy_def metadata_def Let_def)

theorem format_limited_output_zero_is_unset_witness:
  "\<not> empty (numbered 3) \<and>
   format_limited_output plain_to_string (Some (numbered 3)) (Some 0) =
     plain_to_string (numbered 3)
       @ [newline, newline] @ ''Data summary: Total 3 records, showing 3 records.''"
proof -
  have pre: "\<not> empty (numbered 3)"
    by (simp add: numbered_shape)
  have three: "str_int (len (numbered 3)) = ''3''"
    by (simp add: numbered_shape str_int_def str_nat_digit digit_char_def)
  show ?thesis
    using pre format_limited_output_zero_is_unset [OF pre, of plain_to_string]
    by (simp add: three)
qed

subsection \<open>What a call does to the state\<close>

lemma request_ct_world:
  "snd (request_ct env url w) = w\<lparr>sent := sent w @ [url]\<rparr>"
  by (simp add: request_ct_def Let_def split: get_outcome.split)

lemma csv_handler_world:
  "snd (csv_handler env url w) = w\<lparr>sent := sent w @ [url]\<rparr>"
proof -
  obtain r w' where r: "request_ct env url w = (r, w')"
    by (cases "request_ct env url w") simp
  with request_ct_world [of env url w] have "w' = w\<lparr>sent := sent w @ [url]\<rparr>"
    by simp
  with r show ?thesis
    by (simp add: csv_handler_def split: sum.split)
qed

lemma nct_try_world:
  "snd (nct_try env nct_ID w) = w\<lparr>sent := sent w @ [nct_url nct_ID]\<rparr>"
proof -
  obtain r w' where r: "csv_handler env (nct_url nct_ID) w = (r, w')"
    by (cases "csv_handler env (nct_url nct_ID) w") simp
  with csv_handler_world [of env "nct_url nct_ID" w]
  have "w' = w\<lparr>sent := sent w @ [nct_url nct_ID]\<rparr>"
    by simp
  with r show ?thesis
    by (simp add: nct_try_def split: sum.split bool.split)
qed

lemma by_NCT_world:
  "snd (search_clinical_trials_by_NCT env nct_ID w) = w\<lparr>sent := sent w @ [nct_url nct_ID]\<rparr>"
  using nct_try_world [of env nct_ID w]
  by (cases "nct_try env nct_ID w")
     (simp add: search_clinical_trials_by_NCT_def split: sum.split)

lemma keyword_try_world:
  "snd (keyword_try env keyword max_studies w) =
     (if max_studies > 1000 \<or> max_studies < 1
         \<or> \<not> set requested_csv_fields \<subseteq> set (valid_csv_column_names w)
      then w else w\<lparr>sent := sent w @ [keyword_url keyword max_studies]\<rparr>)"
proof -
  obtain r w' where r: "csv_handler env (keyword_url keyword max_studies) w = (r, w')"
    by (cases "csv_handler env (keyword_url keyword max_studies) w") simp
  with csv_handler_world [of env "keyword_url keyword max_studies" w]
  have "w' = w\<lparr>sent := sent w @ [keyword_url keyword max_studies]\<rparr>"
    by simp
  with r show ?thesis
    by (simp add: keyword_try_def split: sum.split)
qed

lemma by_keyword_world:
  "snd (search_clinical_trials_by_keyword env keyword max_studies w) =
     snd (keyword_try env keyword max_studies w)"
  by (cases "keyword_try env keyword max_studies w")
     (simp add: search_clinical_trials_by_keyword_def split: sum.split)

lemma by_NCT_valid:
  "valid_csv_column_names (snd (search_clinical_trials_by_NCT env nct_ID w)) =
     valid_csv_column_names w"
  by (simp add: by_NCT_world)

lemma by_keyword_valid:
  "valid_csv_column_names (snd (search_clinical_trials_by_keyword env keyword max_studies w)) =
     valid_csv_column_names w"
  by (simp add: by_keyword_world keyword_try_world)

subsection \<open>The load of the module\<close>

lemma readlines_line: "newline \<notin> set l \<Longrightarrow> readlines (l @ newline # text) = l # readlines text"
  by (induction l) auto

lemma readlines_unlines:
  "list_all (\<lambda>l. newline \<notin> set l) ls \<Longrightarrow>
   readlines (concat (map (\<lambda>line. line @ [newline]) ls)) = ls"
  by (induction ls) (simp_all add: readlines_line)

lemma content_lines: "readlines STUDY_FIELDS_CSV_CONTENT = STUDY_FIELDS_CSV_LINES"
  unfolding STUDY_FIELDS_CSV_CONTENT_def
  by (rule readlines_unlines) (simp add: STUDY_FIELDS_CSV_LINES_def newline_def)

lemma module_load_fresh: "module_load = Inr fresh"
  by (simp add: module_load_def content_lines STUDY_FIELDS_CSV_LINES_def csv_record_def
      dict_reader_def strip_def is_space_def fresh_def)

lemma fresh_names:
  "length (valid_csv_column_names fresh) = 30" "distinct (valid_csv_column_names fresh)"
  "set requested_csv_fields \<subseteq> set (valid_csv_column_names fresh)"
  by (simp_all add: fresh_def requested_csv_fields_def)

lemma table_entries:
  "length (dict_reader (map csv_record (readlines STUDY_FIELDS_CSV_CONTENT))) = 30"
  by (simp add: content_lines STUDY_FIELDS_CSV_LINES_def csv_record_def dict_reader_def)

lemma reachable_valid:
  "reachable w \<Longrightarrow> valid_csv_column_names w = valid_csv_column_names fresh"
proof (induction rule: reachable.induct)
  case (loaded w)
  then show ?case by (simp add: module_load_fresh)
next
  case (by_NCT w env nct_ID)
  then show ?case by (simp add: by_NCT_valid)
next
  case (by_keyword w env keyword max_studies)
  then show ?case by (simp add: by_keyword_valid)
qed

lemma reachable_fresh: "reachable fresh"
  by (rule reachable.loaded) (rule module_load_fresh)

subsection \<open>The schema registry\<close>

text \<open>
  C9, as amended. The embedded table has exactly 30 entries, not 29. In every state
  the program can reach, the list of valid display names is the list the load has
  built: it has 30 names, no name twice, and no call of a tool changes it.
\<close>

theorem registry_thirty_names_fixed:
  assumes "reachable w"
  shows "length (dict_reader (map csv_record (readlines STUDY_FIELDS_CSV_CONTENT))) = 30 \<and>
         length (valid_csv_column_names w) = 30 \<and>
         distinct (valid_csv_column_names w) \<and>
         module_load = Inr (w\<lparr>sent := []\<rparr>) \<and>
         valid_csv_column_names (snd (search_clinical_trials_by_NCT env nct_ID w)) =
           valid_csv_column_names w \<and>
         valid_csv_column_names (snd (search_clinical_trials_by_keyword env keyword max_studies w)) =
           valid_csv_column_names w"
proof -
  from assms have names: "valid_csv_column_names w = valid_csv_column_names fresh"
    by (rule reachable_valid)
  have "w\<lparr>sent := []\<rparr> = fresh"
    using names by (simp add: fresh_def)
  then have "module_load = Inr (w\<lparr>sent := []\<rparr>)"
    by (simp add: module_load_fresh)
  then show ?thesis
    by (simp add: names fresh_names table_entries by_NCT_valid by_keyword_valid)
qed

theorem registry_thirty_names_fixed_witness:
  "reachable (snd (search_clinical_trials_by_NCT (plain_env Raises_Timeout) ''NCT00000001'' fresh)) \<and>
   length (valid_csv_column_names
     (snd (search_clinical_trials_by_NCT (plain_env Raises_Timeout) ''NCT00000001'' fresh))) = 30 \<and>
   distinct (valid_csv_column_names
     (snd (search_clinical_trials_by_NCT (plain_env Raises_Timeout) ''NCT00000001'' fresh)))"
proof -
  have r: "reachable (snd (search_clinical_trials_by_NCT (plain_env Raises_Timeout) ''NCT00000001'' fresh))"
    by (rule reachable.by_NCT) (rule reachable_fresh)
  show ?thesis
    using r registry_thirty_names_fixed [OF r] by simp
qed

text \<open>
  C9 as the specification states it fails on the count: the load leaves 30 valid
  display names, and 30 is not 29.
\<close>

theorem registry_count_counterexample:
  "module_load = Inr fresh \<and> length (valid_csv_column_names fresh) = 30 \<and>
   length (valid_csv_column_names fresh) \<noteq> 29"
  by (simp add: module_load_fresh fresh_names)

text \<open>
  C8. In every state the program can reach, the requested fields of the keyword search
  are among the valid display names, so no call leaves through the rejection of
  invalid fields: neither the exit nor the returned text is that of the rejection.
\<close>

theorem requested_fields_always_valid:
  assumes "reachable w"
  shows "set requested_csv_fields \<subseteq> set (valid_csv_column_names w) \<and>
         (\<forall>fr. fst (keyword_try env keyword max_studies w) = Inr fr \<longrightarrow>
               left_at fr \<noteq> Reject_Fields)"
proof -
  from assms have "valid_csv_column_names w = valid_csv_column_names fresh"
    by (rule reachable_valid)
  then have sub: "set requested_csv_fields \<subseteq> set (valid_csv_column_names w)"
    by (simp add: fresh_names)
  obtain r w' where r: "csv_handler env (keyword_url keyword max_studies) w = (r, w')"
    by (cases "csv_handler env (keyword_url keyword max_studies) w") simp
  have "\<forall>fr. fst (keyword_try env keyword max_studies w) = Inr fr \<longrightarrow> left_at fr \<noteq> Reject_Fields"
    using sub r by (auto simp add: keyword_try_def split: sum.splits if_splits)
  with sub show ?thesis by simp
qed

theorem requested_fields_always_valid_witness:
  "reachable fresh \<and>
   set requested_csv_fields \<subseteq> set (valid_csv_column_names fresh) \<and>
   fst (keyword_try (plain_env (Response two_studies)) ''pain'' 20 fresh) =
     Inr \<lparr>left_at = Formatted,
          results_str = ''NCT Number Study Title'' @ [newline] @
            ''NCT00000001 Aspirin in Pain'' @ [newline] @
            ''NCT00000002 Placebo in Pain'' @ [newline, newline] @
            ''Data summary: Total 2 records, showing 2 records.'',
          citation_list = [''Aspirin in Pain: https://clinicaltrials.gov/study/NCT00000001'',
                           ''Placebo in Pain: https://clinicaltrials.gov/study/NCT00000002'']\<rparr> \<and>
   Formatted \<noteq> Reject_Fields"
proof -
  have run: "fst (keyword_try (plain_env (Response two_studies)) ''pain'' 20 fresh) =
     Inr \<lparr>left_at = Formatted,
          results_str = ''NCT Number Study Title'' @ [newline] @
            ''NCT00000001 Aspirin in Pain'' @ [newline] @
            ''NCT00000002 Placebo in Pain'' @ [newline, newline] @
            ''Data summary: Total 2 records, showing 2 records.'',
          citation_list = [''Aspirin in Pain: https://clinicaltrials.gov/study/NCT00000001'',
                           ''Placebo in Pain: https://clinicaltrials.gov/study/NCT00000002'']\<rparr>"
    by code_simp
  show ?thesis
    using reachable_fresh run
      requested_fields_always_valid [OF reachable_fresh,
        of "plain_env (Response two_studies)" "''pain''" 20]
    by simp
qed

subsection \<open>Validation of the bound\<close>



subsection \<open>Exceptions stay inside the tools\<close>




subsection \<open>The URL of the keyword search\<close>

text \<open>
  C6, as amended. The \<open>fields\<close> parameter of the URL is the requested display names
  themselves, joined by \<open>|\<close>; the field identifiers of the embedded table are not
  looked up. For a bound within 1 and 1000, in a state the program can reach, that URL
  is the one request of the call.
\<close>

theorem fields_parameter_joins_display_names:
  assumes "reachable w" and "1 \<le> max_studies" and "max_studies \<le> 1000"
  shows "concat_api_fields =
           ''NCT Number|Conditions|Study Title|Brief Summary|Study URL|Study Status|Phases|Start Date|Sponsor|Enrollment|Study Type'' \<and>
         keyword_url keyword max_studies =
           ''https://clinicaltrials.gov/api/v2/studies?format=csv&query.term='' @ keyword
             @ ''&markupFormat=markdown&fields='' @ join ''|'' requested_csv_fields
             @ ''&pageSize='' @ str_int max_studies \<and>
         sent (snd (search_clinical_trials_by_keyword env keyword max_studies w)) =
           sent w @ [keyword_url keyword max_studies]"
proof -
  from assms(1) have "valid_csv_column_names w = valid_csv_column_names fresh"
    by (rule reachable_valid)
  then have sub: "set requested_csv_fields \<subseteq> set (valid_csv_column_names w)"
    by (simp add: fresh_names)
  have joined: "concat_api_fields =
      ''NCT Number|Conditions|Study Title|Brief Summary|Study URL|Study Status|Phases|Start Date|Sponsor|Enrollment|Study Type''"
    by (simp add: concat_api_fields_def requested_csv_fields_def)
  have url: "keyword_url keyword max_studies =
           ''https://clinicaltrials.gov/api/v2/studies?format=csv&query.term='' @ keyword
             @ ''&markupFormat=markdown&fields='' @ join ''|'' requested_csv_fields
             @ ''&pageSize='' @ str_int max_studies"
    by (simp add: keyword_url_def concat_api_fields_def BASE_URL_def CSV_def)
  have "sent (snd (search_clinical_trials_by_keyword env keyword max_studies w)) =
           sent w @ [keyword_url keyword max_studies]"
    using sub assms(2,3) by (simp add: by_keyword_world keyword_try_world)
  with joined url show ?thesis by simp
qed

theorem fields_parameter_joins_display_names_witness:
  "reachable fresh \<and> (1::int) \<le> 20 \<and> (20::int) \<le> 1000 \<and>
   sent (snd (search_clinical_trials_by_keyword (plain_env (Response two_studies)) ''pain'' 20 fresh)) =
     [''https://clinicaltrials.gov/api/v2/studies?format=csv&query.term=pain&markupFormat=markdown&fields=NCT Number|Conditions|Study Title|Brief Summary|Study URL|Study Status|Phases|Start Date|Sponsor|Enrollment|Study Type&pageSize=20'']"
proof -
  have twenty: "str_int 20 = ''20''"
    by (simp add: str_int_def str_nat_more str_nat_digit digit_char_def)
  have empty_log: "sent fresh = []"
    by (simp add: fresh_def)
  show ?thesis
    using reachable_fresh
      fields_parameter_joins_display_names [OF reachable_fresh, of 20 "''pain''"
        "plain_env (Response two_studies)"]
    by (simp add: twenty empty_log requested_csv_fields_def)
qed

text \<open>
  C6 as the specification states it fails: the parameter the program builds is not the
  one made of the field identifiers.
\<close>

theorem fields_parameter_counterexample:
  "spec_concat_api_fields =
     ''NCTId|Condition|BriefTitle|BriefSummary|NCTId|OverallStatus|Phase|StartDate|LeadSponsorName|EnrollmentCount|StudyType'' \<and>
   concat_api_fields =
     ''NCT Number|Conditions|Study Title|Brief Summary|Study URL|Study Status|Phases|Start Date|Sponsor|Enrollment|Study Type'' \<and>
   concat_api_fields \<noteq> spec_concat_api_fields"
proof -
  define entries :: "(string \<times> string) list" where
    "entries =
       [(''NCT Number'', ''NCTId''),
        (''Study Title'', ''BriefTitle''),
        (''Study URL'', ''NCTId''),
        (''Acronym'', ''Acronym''),
        (''Study Status'', ''OverallStatus''),
        (''Brief Summary'', ''BriefSummary''),
        (''Study Results'', ''HasResults''),
        (''Conditions'', ''Condition''),
        (''Interventions'', ''InterventionType|InterventionName''),
        (''Primary Outcome Measures'', ''PrimaryOutcomeMeasure|PrimaryOutcomeDescription|PrimaryOutcomeTimeFrame''),
        (''Secondary Outcome Measures'', ''SecondaryOutcomeMeasure|SecondaryOutcomeDescription|SecondaryOutcomeTimeFrame''),
        (''Other Outcome Measures'', ''OtherOutcomeMeasure|OtherOutcomeDescription|OtherOutcomeTimeFrame''),
        (''Sponsor'', ''LeadSponsorName''),
        (''Collaborators'', ''CollaboratorName''),
        (''Sex'', ''Sex''),
        (''Age'', ''MinimumAge|MaximumAge|StdAge''),
        (''Phases'', ''Phase''),
        (''Enrollment'', ''EnrollmentCount''),
        (''Funder Type'', ''LeadSponsorClass''),
        (''Study Type'', ''StudyType''),
        (''Study Design'', ''DesignAllocation|DesignInterventionModel|DesignMasking|DesignWhoMasked|DesignPrimaryPurpose''),
        (''Other IDs'', ''OrgStudyId|SecondaryId''),
        (''Start Date'', ''StartDate''),
        (''Primary Completion Date'', ''PrimaryCompletionDate''),
        (''Completion Date'', ''CompletionDate''),
        (''First Posted'', ''StudyFirstPostDate''),
        (''Results First Posted'', ''ResultsFirstSubmitDate''),
        (''Last Update Posted'', ''LastUpdatePostDate''),
        (''Locations'', ''LocationFacility|LocationCity|LocationState|LocationZip|LocationCountry''),
        (''Study Documents'', ''NCTId|LargeDocLabel|LargeDocFilename'')]"
  define entry :: "string \<times> string \<Rightarrow> (string \<rightharpoonup> string option)" where
    "entry = (\<lambda>(name, ids). [''Column Name'' \<mapsto> Some name, ''Included Data Fields'' \<mapsto> Some ids])"
  have table: "dict_reader (map csv_record (readlines STUDY_FIELDS_CSV_CONTENT)) = map entry entries"
    by (simp add: content_lines STUDY_FIELDS_CSV_LINES_def csv_record_def dict_reader_def
        entries_def entry_def)
  have look: "included_data_fields name =
      (case find (\<lambda>p. fst p = name) entries of None \<Rightarrow> [] | Some p \<Rightarrow> snd p)" for name
    unfolding included_data_fields_def table
    by (induction entries) (auto simp add: entry_def)
  have ids: "map included_data_fields requested_csv_fields =
      [''NCTId'', ''Condition'', ''BriefTitle'', ''BriefSummary'', ''NCTId'', ''OverallStatus'',
       ''Phase'', ''StartDate'', ''LeadSponsorName'', ''EnrollmentCount'', ''StudyType'']"
    by (simp add: requested_csv_fields_def look entries_def)
  have spec: "spec_concat_api_fields =
     ''NCTId|Condition|BriefTitle|BriefSummary|NCTId|OverallStatus|Phase|StartDate|LeadSponsorName|EnrollmentCount|StudyType''"
    by (simp add: spec_concat_api_fields_def ids)
  have code: "concat_api_fields =
     ''NCT Number|Conditions|Study Title|Brief Summary|Study URL|Study Status|Phases|Start Date|Sponsor|Enrollment|Study Type''"
    by (simp add: concat_api_fields_def requested_csv_fields_def)
  show ?thesis
    by (simp add: spec code)
qed

subsection \<open>The lookup by identifier\<close>

lemma from_records_shape:
  assumes "from_records data header = Inr df"
  shows "columns df = header" and "header \<noteq> [] \<Longrightarrow> length (rows df) = length data"
  using assms by (auto simp add: from_records_def Let_def split: if_splits)

lemma column_positions_columns: "column_positions df label = [i] \<Longrightarrow> columns df \<noteq> []"
  by (auto simp add: column_positions_def)

lemma nct_try_decoded:
  assumes "csv_handler env (nct_url nct_ID) w = (Inr (header # data), w')"
    and "data \<noteq> []"
    and "from_records data header = Inr df"
  shows "nct_try env nct_ID w =
     (if empty df then
        (Inr \<lparr>left_at = Not_Found_Row, results_str = nct_not_found nct_ID, citation_list = []\<rparr>, w')
      else
        (case nct_number_any df nct_ID of
           Inl e \<Rightarrow> (Inl e, w')
         | Inr False \<Rightarrow>
             (Inr \<lparr>left_at = Not_Found_Row, results_str = nct_not_found nct_ID,
                   citation_list = []\<rparr>, w')
         | Inr True \<Rightarrow>
             (case nct_number_first df nct_ID of
                Inl e \<Rightarrow> (Inl e, w')
              | Inr study_row \<Rightarrow>
                  (Inr \<lparr>left_at = Formatted,
                        results_str = format_limited_output (to_string env) (Some df) None,
                        citation_list = [nct_citation env nct_ID (columns df) study_row]\<rparr>,
                   w'))))"
proof -
  from assms(2) have "length (header # data) > 1"
    by (cases data) simp_all
  with assms(1,3) show ?thesis
    by (simp add: nct_try_def)
qed

text \<open>
  C7, as amended. The decode has succeeded with a header and at least one data row, the
  table builds (the widest data row has as many fields as the header) and has exactly
  one column labelled \<open>NCT Number\<close>, and no row holds the identifier
  \<open>NCT00000000\<close> in it: the tool returns exactly
  \<open>Study with NCT ID NCT00000000 not found in ClinicalTrials.gov API response.\<close>
\<close>

theorem absent_identifier_not_found:
  assumes "csv_handler env (nct_url ''NCT00000000'') w = (Inr (header # data), w')"
    and "data \<noteq> []"
    and "from_records data header = Inr df"
    and "column_positions df ''NCT Number'' = [i]"
    and "\<forall>r \<in> set (rows df). r ! i \<noteq> Some ''NCT00000000''"
  shows "search_clinical_trials_by_NCT env ''NCT00000000'' w =
           (Inr ''Study with NCT ID NCT00000000 not found in ClinicalTrials.gov API response.'', w')"
proof -
  from assms(5) have none: "\<not> list_ex (\<lambda>r. r ! i = Some ''NCT00000000'') (rows df)"
    by (simp add: list_ex_iff)
  with assms(4) have any: "nct_number_any df ''NCT00000000'' = Inr False"
    by (simp add: nct_number_any_def)
  have "nct_try env ''NCT00000000'' w =
      (Inr \<lparr>left_at = Not_Found_Row, results_str = nct_not_found ''NCT00000000'',
            citation_list = []\<rparr>, w')"
    using nct_try_decoded [OF assms(1,2,3)] any by simp
  then show ?thesis
    by (simp add: search_clinical_trials_by_NCT_def nct_not_found_def)
qed

text \<open>
  The scenario of the specification: one data row, with another identifier.
\<close>

theorem absent_identifier_not_found_witness:
  "csv_handler (plain_env (Response one_study)) (nct_url ''NCT00000000'') fresh =
     (Inr [[''NCT Number'', ''Study Title''], [''NCT00000001'', ''Aspirin in Pain'']],
      fresh\<lparr>sent := [nct_url ''NCT00000000'']\<rparr>) \<and>
   from_records [[''NCT00000001'', ''Aspirin in Pain'']] [''NCT Number'', ''Study Title''] =
     Inr \<lparr>columns = [''NCT Number'', ''Study Title''],
          rows = [[Some ''NCT00000001'', Some ''Aspirin in Pain'']]\<rparr> \<and>
   column_positions \<lparr>columns = [''NCT Number'', ''Study Title''],
          rows = [[Some ''NCT00000001'', Some ''Aspirin in Pain'']]\<rparr> ''NCT Number'' = [0] \<and>
   search_clinical_trials_by_NCT (plain_env (Response one_study)) ''NCT00000000'' fresh =
     (Inr ''Study with NCT ID NCT00000000 not found in ClinicalTrials.gov API response.'',
      fresh\<lparr>sent := [nct_url ''NCT00000000'']\<rparr>)"
proof -
  let ?df = "\<lparr>columns = [''NCT Number'', ''Study Title''],
          rows = [[Some ''NCT00000001'', Some ''Aspirin in Pain'']]\<rparr>"
  have csv: "csv_handler (plain_env (Response one_study)) (nct_url ''NCT00000000'') fresh =
     (Inr ([''NCT Number'', ''Study Title''] # [[''NCT00000001'', ''Aspirin in Pain'']]),
      fresh\<lparr>sent := [nct_url ''NCT00000000'']\<rparr>)"
    by (simp add: csv_handler_def request_ct_def plain_env_def one_study_def newline_def
        csv_record_def fresh_def)
  have data: "[[''NCT00000001'', ''Aspirin in Pain'']] \<noteq> []"
    by simp
  have built: "from_records [[''NCT00000001'', ''Aspirin in Pain'']] [''NCT Number'', ''Study Title''] =
     Inr ?df"
    by (simp add: from_records_def)
  have pos: "column_positions ?df ''NCT Number'' = [0]"
    by (simp add: column_positions_def upt_rec [of 0] upt_rec [of 1])
  have absent: "\<forall>r \<in> set (rows ?df). r ! 0 \<noteq> Some ''NCT00000000''"
    by simp
  show ?thesis
    using csv built pos absent_identifier_not_found [OF csv data built pos absent]
    by simp
qed

text \<open>
  C7 as the specification states it fails when the table does not build: the decode
  succeeds with one data row that holds another identifier and a field more than the
  header, \<open>from_records\<close> raises \<open>ValueError\<close>, and the tool returns the error text,
  not the not-found text.
\<close>

theorem wide_row_counterexample:
  "csv_handler (plain_env (Response wide_study)) (nct_url ''NCT00000000'') fresh =
     (Inr [[''NCT Number'', ''Study Title''], [''NCT00000001'', ''Aspirin in Pain'', ''extra'']],
      fresh\<lparr>sent := [nct_url ''NCT00000000'']\<rparr>) \<and>
   fst (search_clinical_trials_by_NCT (plain_env (Response wide_study)) ''NCT00000000'' fresh) =
     Inr ''Error fetching study details for NCT ID NCT00000000: 2 columns passed, passed data had 3 columns'' \<and>
   fst (search_clinical_trials_by_NCT (plain_env (Response wide_study)) ''NCT00000000'' fresh) \<noteq>
     Inr ''Study with NCT ID NCT00000000 not found in ClinicalTrials.gov API response.''"
proof -
  have csv: "csv_handler (plain_env (Response wide_study)) (nct_url ''NCT00000000'') fresh =
     (Inr [[''NCT Number'', ''Study Title''], [''NCT00000001'', ''Aspirin in Pain'', ''extra'']],
      fresh\<lparr>sent := [nct_url ''NCT00000000'']\<rparr>)"
    by (simp add: csv_handler_def request_ct_def plain_env_def wide_study_def newline_def
        csv_record_def fresh_def)
  have raised: "from_records [[''NCT00000001'', ''Aspirin in Pain'', ''extra'']]
      [''NCT Number'', ''Study Title''] =
        Inl (ValueError ''2 columns passed, passed data had 3 columns'')"
    by (simp add: from_records_def str_nat_digit digit_char_def)
  have result: "fst (search_clinical_trials_by_NCT (plain_env (Response wide_study)) ''NCT00000000'' fresh) =
     Inr ''Error fetching study details for NCT ID NCT00000000: 2 columns passed, passed data had 3 columns''"
    by (simp add: search_clinical_trials_by_NCT_def nct_try_def csv raised)
  show ?thesis
    by (simp add: csv result)
qed

text \<open>
  C5, as amended. The decode has succeeded with a header and at least one data row, the
  table builds and has one column labelled \<open>NCT Number\<close>, and \<open>study_row\<close> is the
  first row that holds the identifier in it. The tool takes title and URL of that row,
  with their fallbacks, for the local citation only; the text it returns is the
  formatted table of all decoded data rows, counted as total and as shown. When there is
  one data row, that table is the one-row table of the selected row.
\<close>

theorem matching_identifier_formats_whole_table:
  assumes "csv_handler env (nct_url nct_ID) w = (Inr (header # data), w')"
    and "data \<noteq> []"
    and "from_records data header = Inr df"
    and "column_positions df ''NCT Number'' = [i]"
    and "find (\<lambda>r. r ! i = Some nct_ID) (rows df) = Some study_row"
  shows "nct_try env nct_ID w =
           (Inr \<lparr>left_at = Formatted,
                 results_str = to_string env df @ [newline, newline]
                   @ ''Data summary: Total '' @ str_nat (length data)
                   @ '' records, showing '' @ str_nat (length data) @ '' records.'',
                 citation_list =
                   [fmt env (series_get header study_row ''Study Title'' ''No Title Available'')
                    @ '': ''
                    @ fmt env (series_get header study_row ''Study URL''
                        (''https://clinicaltrials.gov/study/'' @ nct_ID))]\<rparr>, w') \<and>
         search_clinical_trials_by_NCT env nct_ID w =
           (Inr (to_string env df @ [newline, newline]
                   @ ''Data summary: Total '' @ str_nat (length data)
                   @ '' records, showing '' @ str_nat (length data) @ '' records.''), w') \<and>
         (length data = 1 \<longrightarrow> rows df = [study_row])"
proof -
  have cols: "columns df = header" and "header \<noteq> []"
    using from_records_shape(1) [OF assms(3)] column_positions_columns [OF assms(4)]
    by simp_all
  then have n: "length (rows df) = length data"
    using from_records_shape(2) [OF assms(3)] by simp
  from assms(5) have member: "study_row \<in> set (rows df)" and hit: "study_row ! i = Some nct_ID"
    by (auto simp add: find_Some_iff)
  then have any: "nct_number_any df nct_ID = Inr True"
    using assms(4) by (auto simp add: nct_number_any_def list_ex_iff)
  have first: "nct_number_first df nct_ID = Inr study_row"
    using assms(4,5) by (simp add: nct_number_first_def)
  have filled: "\<not> empty df"
    using member cols \<open>header \<noteq> []\<close> by (auto simp add: empty_def)
  have shown: "format_limited_output (to_string env) (Some df) None =
      to_string env df @ [newline, newline] @ ''Data summary: Total '' @ str_nat (length data)
        @ '' records, showing '' @ str_nat (length data) @ '' records.''"
    using filled n
    by (simp add: format_limited_output_def truthy_def metadata_def len_def str_int_nat Let_def)
  have body: "nct_try env nct_ID w =
           (Inr \<lparr>left_at = Formatted,
                 results_str = to_string env df @ [newline, newline]
                   @ ''Data summary: Total '' @ str_nat (length data)
                   @ '' records, showing '' @ str_nat (length data) @ '' records.'',
                 citation_list =
                   [fmt env (series_get header study_row ''Study Title'' ''No Title Available'')
                    @ '': ''
                    @ fmt env (series_get header study_row ''Study URL''
                        (''https://clinicaltrials.gov/study/'' @ nct_ID))]\<rparr>, w')"
    using nct_try_decoded [OF assms(1,2,3)] filled any first shown cols
    by (simp add: nct_citation_def Let_def)
  have one: "rows df = [study_row]" if "length data = 1"
  proof -
    from that n obtain r where "rows df = [r]"
      by (cases "rows df") simp_all
    with member show ?thesis by simp
  qed
  from body one show ?thesis
    by (simp add: search_clinical_trials_by_NCT_def)
qed

theorem matching_identifier_formats_whole_table_witness:
  "csv_handler (plain_env (Response one_study)) (nct_url ''NCT00000001'') fresh =
     (Inr [[''NCT Number'', ''Study Title''], [''NCT00000001'', ''Aspirin in Pain'']],
      fresh\<lparr>sent := [nct_url ''NCT00000001'']\<rparr>) \<and>
   nct_try (plain_env (Response one_study)) ''NCT00000001'' fresh =
     (Inr \<lparr>left_at = Formatted,
           results_str = ''NCT Number Study Title'' @ [newline]
             @ ''NCT00000001 Aspirin in Pain'' @ [newline, newline]
             @ ''Data summary: Total 1 records, showing 1 records.'',
           citation_list = [''Aspirin in Pain: https://clinicaltrials.gov/study/NCT00000001'']\<rparr>,
      fresh\<lparr>sent := [nct_url ''NCT00000001'']\<rparr>) \<and>
   search_clinical_trials_by_NCT (plain_env (Response one_study)) ''NCT00000001'' fresh =
     (Inr (''NCT Number Study Title'' @ [newline]
             @ ''NCT00000001 Aspirin in Pain'' @ [newline, newline]
             @ ''Data summary: Total 1 records, showing 1 records.''),
      fresh\<lparr>sent := [nct_url ''NCT00000001'']\<rparr>)"
proof -
  let ?df = "\<lparr>columns = [''NCT Number'', ''Study Title''],
          rows = [[Some ''NCT00000001'', Some ''Aspirin in Pain'']]\<rparr>"
  have csv: "csv_handler (plain_env (Response one_study)) (nct_url ''NCT00000001'') fresh =
     (Inr ([''NCT Number'', ''Study Title''] # [[''NCT00000001'', ''Aspirin in Pain'']]),
      fresh\<lparr>sent := [nct_url ''NCT00000001'']\<rparr>)"
    by (simp add: csv_handler_def request_ct_def plain_env_def one_study_def newline_def
        csv_record_def fresh_def)
  have data: "[[''NCT00000001'', ''Aspirin in Pain'']] \<noteq> []"
    by simp
  have built: "from_records [[''NCT00000001'', ''Aspirin in Pain'']] [''NCT Number'', ''Study Title''] =
     Inr ?df"
    by (simp add: from_records_def)
  have pos: "column_positions ?df ''NCT Number'' = [0]"
    by (simp add: column_positions_def upt_rec [of 0] upt_rec [of 1])
  have found: "find (\<lambda>r. r ! 0 = Some ''NCT00000001'') (rows ?df) =
      Some [Some ''NCT00000001'', Some ''Aspirin in Pain'']"
    by simp
  have rendered: "to_string (plain_env (Response one_study)) ?df =
      ''NCT Number Study Title'' @ [newline] @ ''NCT00000001 Aspirin in Pain''"
    by (simp add: plain_env_def plain_to_string_def cell_text_def)
  have cited: "fmt (plain_env (Response one_study))
        (series_get [''NCT Number'', ''Study Title''] [Some ''NCT00000001'', Some ''Aspirin in Pain'']
           ''Study Title'' ''No Title Available'') = ''Aspirin in Pain''"
      "fmt (plain_env (Response one_study))
        (series_get [''NCT Number'', ''Study Title''] [Some ''NCT00000001'', Some ''Aspirin in Pain'']
           ''Study URL'' (''https://clinicaltrials.gov/study/'' @ ''NCT00000001'')) =
         ''https://clinicaltrials.gov/study/NCT00000001''"
    by (simp_all add: fmt_def series_get_def)
  have one: "str_nat (length [[''NCT00000001'', ''Aspirin in Pain'']]) = ''1''"
    by (simp add: str_nat_digit digit_char_def)
  show ?thesis
    using csv matching_identifier_formats_whole_table [OF csv data built pos found]
    by (simp only: rendered cited one) simp
qed

text \<open>
  C5 as the specification states it fails when the decode holds a second data row: the
  text returned renders both rows and counts two records; it is not the formatted
  one-row table of the selected row.
\<close>

theorem other_rows_rendered_counterexample:
  "fst (search_clinical_trials_by_NCT (plain_env (Response two_studies)) ''NCT00000001'' fresh) =
     Inr (''NCT Number Study Title'' @ [newline]
          @ ''NCT00000001 Aspirin in Pain'' @ [newline]
          @ ''NCT00000002 Placebo in Pain'' @ [newline, newline]
          @ ''Data summary: Total 2 records, showing 2 records.'') \<and>
   fst (search_clinical_trials_by_NCT (plain_env (Response two_studies)) ''NCT00000001'' fresh) \<noteq>
     Inr (format_limited_output plain_to_string
            (Some \<lparr>columns = [''NCT Number'', ''Study Title''],
                   rows = [[Some ''NCT00000001'', Some ''Aspirin in Pain'']]\<rparr>) None)"
  by code_simp

end
